theory Spec2Isabelle
  imports Complex_Main "HOL-Library.Word"
begin

section \<open>Data model\<close>

text \<open>
  The panorama creator works on JavaScript numbers and on OpenCV matrices. A number that
  carries a coordinate or a distance is modelled by the real it denotes (no NaN, no
  infinity); numbers that are row, column and pixel counts are integers. A corner is the
  two-element array \<open>[x, y]\<close>.
\<close>

type_synonym point = "real \<times> real"

text \<open>
  JavaScript's \<open>+\<close>, \<open>-\<close>, \<open>*\<close> and \<open>/\<close> on numbers are the IEEE 754 double precision
  operations: each gives the double nearest to the exact result. The canvas geometry and
  the blend take these four operations as a parameter, so that what is proved of them
  holds for the machine's arithmetic. \<open>Math.floor\<close>, \<open>Math.ceil\<close>, \<open>Math.round\<close>,
  \<open>Math.min\<close>, \<open>Math.max\<close>, \<open>Math.abs\<close>, the unary minus and the comparisons are exact on
  doubles and are HOL's; so is the arithmetic of integers far below \<open>2^53\<close> (counts, pixel
  offsets, the sum of two bytes and its half).
\<close>

record js_arith =
  fadd :: "real \<Rightarrow> real \<Rightarrow> real"
  fsub :: "real \<Rightarrow> real \<Rightarrow> real"
  fmul :: "real \<Rightarrow> real \<Rightarrow> real"
  fdiv :: "real \<Rightarrow> real \<Rightarrow> real"

text \<open>
  A \<open>cv.Mat\<close>: its \<open>rows\<close>, its \<open>cols\<close> and its pixels, row by row.
\<close>

record 'a mat =
  rows :: nat
  cols :: nat
  data :: "'a list list"

text \<open>
  The only exceptions the component raises itself are the two \<open>throw new Error(...)\<close>
  of \<open>stitchTwoImages\<close>; \<open>TypeError\<close> is what JavaScript raises when a property of
  \<open>undefined\<close> is read (\<open>corners[i][0]\<close> with a missing corner, \<open>kp.get(i).pt\<close> with a
  missing keypoint); \<open>LibraryError\<close> is an exception thrown inside a call of the vision
  library.
\<close>

datatype error =
    NotEnoughFeatures      \<comment> \<open>"Not enough features detected"\<close>
  | NotEnoughGoodMatches   \<comment> \<open>"Not enough good matches - check image overlap"\<close>
  | TypeError
  | LibraryError

text \<open>
  \<open>Math.min(...xs)\<close> and \<open>Math.max(...xs)\<close> over a non-empty argument list. (With no
  argument JavaScript answers an infinity; every call below is on a non-empty list.)
\<close>

definition Math_min :: "real list \<Rightarrow> real" where
  "Math_min xs = fold min (tl xs) (hd xs)"


text \<open>\<open>Math.round\<close> rounds to the nearest integer, a half towards plus infinity.\<close>

definition Math_round :: "real \<Rightarrow> int" where
  "Math_round x = \<lfloor>x + 1 / 2\<rfloor>"

section \<open>The crop stage: \<open>cropPanorama\<close>\<close>

text \<open>
  The corners are pushed in the order of \<open>pts1\<close> in \<open>stitchTwoImages\<close>:
  \<open>[0, 0]\<close>, \<open>[0, h_src]\<close>, \<open>[w_src, h_src]\<close>, \<open>[w_src, 0]\<close>, that is top-left,
  bottom-left, bottom-right, top-right.
\<close>

definition top_left :: nat where [simp]: "top_left = 0"

text \<open>
  The horizontal bounds after the side rule alone (the \<open>if (corners[0][0] < 0)\<close> of
  \<open>cropPanorama\<close>): the pair \<open>(crop_x_start, crop_x_end)\<close>.
\<close>

definition crop_x_side :: "int \<Rightarrow> point list \<Rightarrow> int \<times> int" where
  "crop_x_side pano_cols corners =
     (if fst (corners ! 0) < 0
      then (let n = \<bar>fst (corners ! 1) - fst (corners ! 0)\<bar>
            in (max 0 \<lfloor>n\<rfloor>, pano_cols))
      else (let end_x = min (fst (corners ! 2)) (fst (corners ! 3))
            in (0, min pano_cols \<lceil>end_x\<rceil>)))"

record crop_rect =
  x_start :: int
  x_end :: int
  y_start :: int
  y_end :: int

text \<open>
  The crop window of \<open>cropPanorama\<close>, from the first line of the function to the four
  clamping assignments.
\<close>

definition crop_window :: "int \<Rightarrow> int \<Rightarrow> int \<Rightarrow> point list \<Rightarrow> crop_rect" where
  "crop_window pano_cols pano_rows h_dst corners =
     (let min_x = \<lfloor>Math_min (map fst corners)\<rfloor>;
          min_y = \<lfloor>Math_min (map snd corners)\<rfloor>;
          t_y = - min_y;
          crop_y_start = t_y;
          crop_y_end = min (t_y + h_dst) pano_rows;
          (crop_x_start, crop_x_end) = crop_x_side pano_cols corners;
          crop_x_start' =
            (if min_x < 0 then max crop_x_start \<lfloor>- (of_int min_x :: real)\<rfloor> else crop_x_start)
      in \<lparr>x_start = max 0 crop_x_start',
          x_end = min pano_cols crop_x_end,
          y_start = max 0 crop_y_start,
          y_end = min pano_rows crop_y_end\<rparr>)"

text \<open>\<open>pano.roi(rect).clone()\<close>: the pixels of the rectangle, as a matrix of its own.\<close>

definition roi :: "'a mat \<Rightarrow> nat \<Rightarrow> nat \<Rightarrow> nat \<Rightarrow> nat \<Rightarrow> 'a mat" where
  "roi m x y w h =
     \<lparr>rows = h, cols = w, data = map (\<lambda>r. take w (drop x r)) (take h (drop y (data m)))\<rparr>"

text \<open>
  The number of corners the function reads: \<open>corners[0]\<close> always, \<open>corners[1]\<close> on the left
  branch, \<open>corners[2]\<close> and \<open>corners[3]\<close> on the right one. A missing one is a \<open>TypeError\<close>.
\<close>

definition corners_read :: "point list \<Rightarrow> nat" where
  "corners_read corners = (if fst (corners ! 0) < 0 then 2 else 4)"

definition cropPanorama :: "'a mat \<Rightarrow> nat \<Rightarrow> point list \<Rightarrow> error + 'a mat" where
  "cropPanorama pano h_dst corners =
     (if corners = [] then Inl TypeError
      else if length corners < corners_read corners then Inl TypeError
      else
        (let win = crop_window (int (cols pano)) (int (rows pano)) (int h_dst) corners;
             width = x_end win - x_start win;
             height = y_end win - y_start win
         in if width \<le> 0 \<or> height \<le> 0 then Inr pano
            else Inr (roi pano (nat (x_start win)) (nat (y_start win)) (nat width) (nat height))))"

text \<open>\<open>crop(crop(X))\<close>: the crop stage applied to its own result, same height and corners.\<close>

definition crop_twice :: "'a mat \<Rightarrow> nat \<Rightarrow> point list \<Rightarrow> error + 'a mat" where
  "crop_twice pano h_dst corners =
     (case cropPanorama pano h_dst corners of
        Inl e \<Rightarrow> Inl e
      | Inr cropped \<Rightarrow> cropPanorama cropped h_dst corners)"

section \<open>Feature matching in \<open>stitchTwoImages\<close>\<close>

text \<open>
  A \<open>cv.DMatch\<close>. \<open>bf.knnMatch(desc_src, desc_dst, matches, 2)\<close> is the library's: its
  result \<open>matches\<close>, one list of candidates per query descriptor, nearest first, is an
  input of the model, as are the sizes of the two keypoint vectors.
\<close>

record DMatch =
  queryIdx :: nat
  trainIdx :: nat
  distance :: real

text \<open>The loop that fills \<open>good_matches\<close> (Lowe's ratio test).\<close>

fun good_matches :: "DMatch list list \<Rightarrow> DMatch list" where
  "good_matches [] = []"
| "good_matches (match_pair # rest) =
     (if length match_pair \<ge> 2
      then (let m = match_pair ! 0; n = match_pair ! 1
            in if distance m < 0.75 * distance n
               then m # good_matches rest
               else good_matches rest)
      else good_matches rest)"

text \<open>
  From the keypoint check to the check of the good matches: the two places where
  \<open>stitchTwoImages\<close> throws.
\<close>

definition stitchTwoImages_match :: "nat \<Rightarrow> nat \<Rightarrow> DMatch list list \<Rightarrow> error + DMatch list" where
  "stitchTwoImages_match kp_dst_size kp_src_size matches =
     (if kp_dst_size < 4 \<or> kp_src_size < 4 then Inl NotEnoughFeatures
      else
        (let good = good_matches matches
         in if length good < 4 then Inl NotEnoughGoodMatches else Inr good))"


section \<open>Homography and canvas geometry in \<open>stitchTwoImages\<close>\<close>











section \<open>The per-pixel blend in \<open>stitchTwoImages\<close>\<close>

text \<open>
  A pixel is the view \<open>ucharPtr(y, x)\<close>: its channels, each an unsigned byte. The stitched
  and the placed fixed image have three channels, the warped moving image four (the last
  is alpha). Writing a number into the view keeps its low eight bits.
\<close>

type_synonym pixel = "8 word list"

definition chan :: "pixel \<Rightarrow> nat \<Rightarrow> real" where
  "chan p c = real (unat (p ! c))"

text \<open>\<open>for (let c = 0; c < 3; c++) pano_pix[c] = f(c)\<close>.\<close>

definition set_channels :: "(nat \<Rightarrow> 8 word) \<Rightarrow> pixel \<Rightarrow> pixel" where
  "set_channels f pano_pix = pano_pix[0 := f 0, 1 := f 1, 2 := f 2]"

text \<open>
  The number that the literal \<open>0.01\<close> denotes: the double nearest to one hundredth.
\<close>

definition js_0_01 :: real where
  "js_0_01 = 5764607523034235 / 2 ^ 59"

text \<open>
  The body of the last pixel loop. \<open>in_overlap\<close>, \<open>has_dst\<close> and \<open>has_src\<close> are the three
  eroded masks at the pixel, \<open>d_dst\<close> and \<open>d_src\<close> the two blurred distance fields there (all
  computed by the library), \<open>pano_pix\<close> the output pixel before the step. The sum, the
  quotients and the products of the weighted branch are the machine's; the sum of two
  bytes and its half are exact.
\<close>

definition blend_pixel ::
  "js_arith \<Rightarrow> bool \<Rightarrow> bool \<Rightarrow> bool \<Rightarrow> real \<Rightarrow> real \<Rightarrow> pixel \<Rightarrow> pixel \<Rightarrow> pixel \<Rightarrow> pixel" where
  "blend_pixel fp in_overlap has_dst has_src d_dst d_src dst_pix src_pix pano_pix =
     (if in_overlap then
        (let total = fadd fp d_dst d_src
         in if total > js_0_01 then
              (let w_dst = fdiv fp d_dst total;
                   w_src = fdiv fp d_src total
               in set_channels
                    (\<lambda>c. word_of_int
                       (Math_round (fadd fp (fmul fp (chan dst_pix c) w_dst)
                                            (fmul fp (chan src_pix c) w_src))))
                    pano_pix)
            else
              set_channels
                (\<lambda>c. word_of_int (Math_round ((chan dst_pix c + chan src_pix c) / 2)))
                pano_pix)
      else if has_dst then set_channels (\<lambda>c. dst_pix ! c) pano_pix
      else if has_src \<and> src_pix ! 3 > 10 then set_channels (\<lambda>c. src_pix ! c) pano_pix
      else pano_pix)"

text \<open>
  The values a \<open>CV_32F\<close> matrix holds (\<open>floatAt\<close>): the single precision numbers, an
  integer below \<open>2^24\<close> in magnitude times a power of two from \<open>2^-149\<close> to \<open>2^104\<close>.
\<close>

definition is_float32 :: "real \<Rightarrow> bool" where
  "is_float32 x \<longleftrightarrow>
     (\<exists>(m::int) (j::nat). \<bar>m\<bar> < 2 ^ 24 \<and> j \<le> 253 \<and> x = of_int m * 2 ^ j / 2 ^ 149)"

text \<open>
  What is used of the rounding of the machine's sum: between \<open>2^-7\<close> and \<open>2^-6\<close>, where
  neighbouring doubles are \<open>2^-59\<close> apart, a sum is within half that distance of the exact
  sum.
\<close>

definition rounds_to_nearest :: "(real \<Rightarrow> real \<Rightarrow> real) \<Rightarrow> bool" where
  "rounds_to_nearest sum2 \<longleftrightarrow>
     (\<forall>a b. 1 / 2 ^ 7 \<le> sum2 a b \<and> sum2 a b < 1 / 2 ^ 6 \<longrightarrow> \<bar>sum2 a b - (a + b)\<bar> \<le> 1 / 2 ^ 60)"

section \<open>The driver: \<open>stitchWithOpenCV\<close>\<close>

text \<open>
  The component's state that the driver reads and writes, and the alerts it has shown.
  Log lines and progress texts are kept by their kind and their numbers, not as formatted
  text (the time stamp that \<open>addLog\<close> prepends is left out).
\<close>

datatype progress_msg =
    NoProgress                      \<comment> \<open>the initial empty text\<close>
  | Starting
  | LoadingImages
  | ConvertingToOpenCV
  | StitchingPanorama
  | StitchingImage nat nat          \<comment> \<open>"Stitching image i of n..."\<close>
  | GeneratingOutput
  | ProgressError

datatype log_msg =
    LogUploaded nat                 \<comment> \<open>"Uploaded n image(s)", from \<open>handleImageUpload\<close>\<close>
  | LogStarted                      \<comment> \<open>"=== PANORAMA STITCHING STARTED ==="\<close>
  | LogLoaded nat                   \<comment> \<open>"Loaded n images"\<close>
  | LogImage nat nat nat            \<comment> \<open>"Image i: w x h px"\<close>
  | LogPair string                  \<comment> \<open>a line logged inside \<open>stitchTwoImages\<close>\<close>
  | LogComplete nat nat             \<comment> \<open>"Complete! Final size: w x h px"\<close>
  | LogError string                 \<comment> \<open>the message of the caught error\<close>

record 'u ui_state =
  panorama :: "'u option"
  processing :: bool
  progress :: progress_msg
  opencvReady :: bool
  statusLog :: "log_msg list"
  showNameModal :: bool
  alerts :: "string list"

definition addLog :: "log_msg \<Rightarrow> 'u ui_state \<Rightarrow> 'u ui_state" where
  "addLog message s = s\<lparr>statusLog := statusLog s @ [message]\<rparr>"

text \<open>\<open>Promise.all(images.map(loadImage))\<close>: all the images, or the first rejection.\<close>

fun load_all :: "('i \<Rightarrow> string + 'a mat) \<Rightarrow> 'i list \<Rightarrow> string + 'a mat list" where
  "load_all loadImage [] = Inr []"
| "load_all loadImage (img # imgs) =
     (case loadImage img of
        Inl e \<Rightarrow> Inl e
      | Inr m \<Rightarrow> (case load_all loadImage imgs of Inl e \<Rightarrow> Inl e | Inr ms \<Rightarrow> Inr (m # ms)))"

text \<open>The log lines of the conversion to matrices, one per image, numbered from \<open>idx + 1\<close>.\<close>

fun log_images :: "nat \<Rightarrow> 'a mat list \<Rightarrow> 'u ui_state \<Rightarrow> 'u ui_state" where
  "log_images idx [] s = s"
| "log_images idx (m # ms) s = log_images (idx + 1) ms (addLog (LogImage (idx + 1) (cols m) (rows m)) s)"

text \<open>
  The loop \<open>for (let i = 1; i < mats.length; i++)\<close>: \<open>stitchTwoImages\<close> is a parameter that
  gives the lines it logged and either the message of the error it threw or the stitched
  pair. The first error ends the loop.
\<close>

fun stitch_loop ::
  "('a mat \<Rightarrow> 'a mat \<Rightarrow> nat \<Rightarrow> string list \<times> (string + 'a mat)) \<Rightarrow>
   nat \<Rightarrow> nat \<Rightarrow> 'a mat \<Rightarrow> 'a mat list \<Rightarrow> 'u ui_state \<Rightarrow> (string + 'a mat) \<times> 'u ui_state" where
  "stitch_loop stitchTwoImages n i panoramaResult [] s = (Inr panoramaResult, s)"
| "stitch_loop stitchTwoImages n i panoramaResult (m # ms) s =
     (let s1 = s\<lparr>progress := StitchingImage (i + 1) n\<rparr>;
          (logged, r) = stitchTwoImages panoramaResult m i;
          s2 = fold (\<lambda>l. addLog (LogPair l)) logged s1
      in case r of
           Inl e \<Rightarrow> (Inl e, s2)
         | Inr stitched \<Rightarrow> stitch_loop stitchTwoImages n (i + 1) stitched ms s2)"

text \<open>The \<open>catch\<close> block.\<close>

definition on_error :: "string \<Rightarrow> 'u ui_state \<Rightarrow> 'u ui_state" where
  "on_error message s =
     (let s1 = addLog (LogError message) (s\<lparr>progress := ProgressError\<rparr>)
      in s1\<lparr>alerts := alerts s1 @ [''Error: '' @ message], processing := False\<rparr>)"

text \<open>
  \<open>stitchWithOpenCV\<close>, on the uploaded \<open>images\<close>. \<open>loadImage\<close> loads one image and reads it
  into a matrix, \<open>toBlob\<close> encodes the result and gives its URL when the encoder made a
  blob.
\<close>

definition stitchWithOpenCV ::
  "('i \<Rightarrow> string + 'a mat) \<Rightarrow>
   ('a mat \<Rightarrow> 'a mat \<Rightarrow> nat \<Rightarrow> string list \<times> (string + 'a mat)) \<Rightarrow>
   ('a mat \<Rightarrow> 'u option) \<Rightarrow> 'i list \<Rightarrow> 'u ui_state \<Rightarrow> 'u ui_state" where
  "stitchWithOpenCV loadImage stitchTwoImages toBlob images s =
     (if length images < 2 then s\<lparr>alerts := alerts s @ [''Please upload at least 2 images'']\<rparr>
      else if \<not> opencvReady s then s\<lparr>alerts := alerts s @ [''OpenCV is still loading...'']\<rparr>
      else
        (let s1 = addLog LogStarted
                    (s\<lparr>processing := True, panorama := None, statusLog := [],
                       progress := Starting\<rparr>);
             s2 = s1\<lparr>progress := LoadingImages\<rparr>
         in case load_all loadImage images of
              Inl e \<Rightarrow> on_error e s2
            | Inr mats \<Rightarrow>
                (let s3 = (addLog (LogLoaded (length mats)) s2)\<lparr>progress := ConvertingToOpenCV\<rparr>;
                     s4 = (log_images 0 mats s3)\<lparr>progress := StitchingPanorama\<rparr>
                 in case mats of
                      [] \<Rightarrow> on_error ''TypeError'' s4  \<comment> \<open>\<open>mats[0]\<close> undefined; not reached, two images or more\<close>
                    | m0 # ms \<Rightarrow>
                        (case stitch_loop stitchTwoImages (length mats) 1 m0 ms s4 of
                           (Inl e, s5) \<Rightarrow> on_error e s5
                         | (Inr panoramaResult, s5) \<Rightarrow>
                             (let s6 = s5\<lparr>progress := GeneratingOutput\<rparr>
                              in case toBlob panoramaResult of
                                   None \<Rightarrow> s6
                                 | Some url \<Rightarrow>
                                     (addLog (LogComplete (cols panoramaResult) (rows panoramaResult))
                                        (s6\<lparr>panorama := Some url\<rparr>))
                                       \<lparr>processing := False, showNameModal := True\<rparr>)))))"

section \<open>Example inputs\<close>

text \<open>
  A 6 by 3 canvas, as the canvas stage sizes it for a 4 by 3 fixed image and a moving
  image shifted two pixels to the left (\<open>ex_left\<close>), and other corner sets for it.
\<close>

definition ex_pano :: "nat mat" where
  "ex_pano = \<lparr>rows = 3, cols = 6,
      data = [[10, 11, 12, 13, 14, 15], [20, 21, 22, 23, 24, 25], [30, 31, 32, 33, 34, 35]]\<rparr>"

definition ex_left :: "point list" where
  "ex_left = [(-2, 0), (-2, 3), (2, 3), (2, 0)]"

definition ex_far_left :: "point list" where
  "ex_far_left = [(-10, 0), (-10, 3), (-6, 3), (-6, 0)]"

definition ex_right :: "point list" where
  "ex_right = [(2, 0), (2, 3), (5, 3), (11 / 2, 0)]"

definition ex_skew :: "point list" where
  "ex_skew = [(0, 0), (- 3 / 2, 3), (3, 3), (4, 0)]"

text \<open>
  A 4 by 3 image, and candidate lists for the ratio test: four of them pass it, two sit
  exactly on the ratio, one has a single candidate.
\<close>

definition ex_img :: "nat mat" where
  "ex_img = \<lparr>rows = 3, cols = 4,
      data = [[10, 11, 12, 13], [20, 21, 22, 23], [30, 31, 32, 33]]\<rparr>"

definition ex_match :: "nat \<Rightarrow> real \<Rightarrow> real \<Rightarrow> DMatch list" where
  "ex_match i best second =
     [\<lparr>queryIdx = i, trainIdx = i, distance = best\<rparr>,
      \<lparr>queryIdx = i, trainIdx = i + 4, distance = second\<rparr>]"

definition ex_matches :: "DMatch list list" where
  "ex_matches = [ex_match 0 10 40, ex_match 2 20 40, ex_match 3 30 40, ex_match 4 29 40,
                 ex_match 5 12 20, ex_match 6 9 12, [\<lparr>queryIdx = 7, trainIdx = 7, distance = 0\<rparr>]]"

text \<open>
  The arithmetic on operands whose exact sum, difference, product or quotient is a
  double (here small integers and their quarters): there the machine's result is the
  exact one.
\<close>

definition exact :: js_arith where
  "exact = \<lparr>fadd = (+), fsub = (-), fmul = (*), fdiv = (/)\<rparr>"








text \<open>The pixels of one canvas position, and a state of the component.\<close>

definition ex_dst_pix :: pixel where "ex_dst_pix = [200, 100, 51]"
definition ex_src_pix :: pixel where "ex_src_pix = [100, 200, 0, 255]"
definition ex_pano_pix :: pixel where "ex_pano_pix = [0, 0, 0]"

definition ex_state :: "string ui_state" where
  "ex_state = \<lparr>panorama = Some ''blob:previous'', processing = False, progress = NoProgress,
      opencvReady = True, statusLog = [LogUploaded 2], showNameModal = False, alerts = []\<rparr>"

section \<open>Auxiliary facts\<close>







lemma Math_round_eq: "Math_round x = round x"
  by (simp add: Math_round_def round_def)


subsection \<open>The crop window\<close>

text \<open>The left and top bounds depend on the corners only, not on the panorama.\<close>

lemma x_start_indep: "x_start (crop_window c r h cs) = x_start (crop_window c' r' h' cs)"
  by (simp add: crop_window_def crop_x_side_def Let_def split: prod.splits)

lemma y_start_indep: "y_start (crop_window c r h cs) = y_start (crop_window c' r' h' cs)"
  by (simp add: crop_window_def Let_def split: prod.splits)

text \<open>On a panorama already cut at the right or bottom bound, the bound stays.\<close>

lemma x_end_shrunk:
  "x_end (crop_window (x_end (crop_window c r h cs)) r' h' cs) = x_end (crop_window c r h cs)"
  by (simp add: crop_window_def crop_x_side_def Let_def split: prod.splits)

lemma y_end_shrunk:
  "y_end (crop_window c' (y_end (crop_window c r h cs)) h cs) = y_end (crop_window c r h cs)"
  by (simp add: crop_window_def Let_def split: prod.splits)

lemma roi_roi_origin: "roi (roi m x y w h) 0 0 w h = roi m x y w h"
  by (simp add: roi_def)

lemma crop_again_at_origin:
  assumes len: "length corners = 4"
    and win: "win = crop_window (int (cols pano)) (int (rows pano)) (int h_dst) corners"
    and org: "x_start win = 0" "y_start win = 0"
    and pos: "0 < x_end win" "0 < y_end win"
  shows "cropPanorama (roi pano 0 0 (nat (x_end win)) (nat (y_end win))) h_dst corners
         = Inr (roi pano 0 0 (nat (x_end win)) (nat (y_end win)))"
proof -
  let ?p = "roi pano 0 0 (nat (x_end win)) (nat (y_end win))"
  let ?w = "crop_window (int (cols ?p)) (int (rows ?p)) (int h_dst) corners"
  have c: "int (cols ?p) = x_end win" and r: "int (rows ?p) = y_end win"
    using pos by (simp_all add: roi_def)
  have xs: "x_start ?w = 0" using org(1) x_start_indep[of _ _ _ corners] win by metis
  have ys: "y_start ?w = 0" using org(2) y_start_indep[of _ _ _ corners] win by metis
  have "x_end ?w = x_end (crop_window (x_end win) (y_end win) (int h_dst) corners)"
    using c r by simp
  then have xe: "x_end ?w = x_end win" unfolding win by (simp only: x_end_shrunk)
  have "y_end ?w = y_end (crop_window (x_end win) (y_end win) (int h_dst) corners)"
    using c r by simp
  then have ye: "y_end ?w = y_end win" unfolding win by (simp only: y_end_shrunk)
  have ne: "corners \<noteq> []" "\<not> length corners < corners_read corners"
    using len by (auto simp: corners_read_def)
  show ?thesis
    unfolding cropPanorama_def [of ?p]
    using ne pos by (simp add: Let_def xs ys xe ye roi_roi_origin)
qed

subsection \<open>The examples, evaluated\<close>

lemma ex_left_window:
  "crop_window 6 3 3 ex_left = \<lparr>x_start = 2, x_end = 6, y_start = 0, y_end = 3\<rparr>"
  by (simp add: ex_left_def crop_window_def crop_x_side_def Math_min_def)

lemma ex_far_left_window:
  "crop_window 6 3 3 ex_far_left = \<lparr>x_start = 10, x_end = 6, y_start = 0, y_end = 3\<rparr>"
  by (simp add: ex_far_left_def crop_window_def crop_x_side_def Math_min_def)

lemma ex_right_window:
  "crop_window 6 3 3 ex_right = \<lparr>x_start = 0, x_end = 5, y_start = 0, y_end = 3\<rparr>"
  by (simp add: ex_right_def crop_window_def crop_x_side_def Math_min_def)

lemma ex_skew_window:
  "crop_window 6 3 3 ex_skew = \<lparr>x_start = 2, x_end = 3, y_start = 0, y_end = 3\<rparr>"
  by (simp add: ex_skew_def crop_window_def crop_x_side_def Math_min_def)



lemma ex_good: "good_matches ex_matches =
   [\<lparr>queryIdx = 0, trainIdx = 0, distance = 10\<rparr>, \<lparr>queryIdx = 2, trainIdx = 2, distance = 20\<rparr>,
    \<lparr>queryIdx = 4, trainIdx = 4, distance = 29\<rparr>, \<lparr>queryIdx = 5, trainIdx = 5, distance = 12\<rparr>]"
  by (simp add: ex_matches_def ex_match_def)

lemma ex_good3: "good_matches (tl ex_matches) =
   [\<lparr>queryIdx = 2, trainIdx = 2, distance = 20\<rparr>,
    \<lparr>queryIdx = 4, trainIdx = 4, distance = 29\<rparr>, \<lparr>queryIdx = 5, trainIdx = 5, distance = 12\<rparr>]"
  by (simp add: ex_matches_def ex_match_def)





lemma ex_chan:
  "chan ex_dst_pix 0 = 200" "chan ex_dst_pix (Suc 0) = 100" "chan ex_dst_pix 2 = 51"
  "chan ex_src_pix 0 = 100" "chan ex_src_pix (Suc 0) = 200" "chan ex_src_pix 2 = 0"
  by (simp_all add: chan_def ex_dst_pix_def ex_src_pix_def)

subsection \<open>Bytes and weights\<close>

lemma chan_range: "0 \<le> chan p c \<and> chan p c \<le> 255"
proof -
  have "unat (p ! c) < 2 ^ LENGTH(8)" by (rule unsigned_less)
  then have "unat (p ! c) \<le> 255" by simp
  then have "real (unat (p ! c)) \<le> real 255" by (simp only: of_nat_le_iff)
  moreover have "real 255 = 255" by simp
  ultimately have hi: "real (unat (p ! c)) \<le> 255" by (simp only:)
  have lo: "0 \<le> real (unat (p ! c))" by (rule of_nat_0_le_iff)
  show ?thesis unfolding chan_def using lo hi by (rule conjI)
qed

lemma set_channels_nth:
  "c < 3 \<Longrightarrow> length pano_pix = 3 \<Longrightarrow> set_channels f pano_pix ! c = f c"
proof -
  assume c: "c < 3" and l: "length pano_pix = 3"
  from l obtain a b d where p: "pano_pix = [a, b, d]"
    by (auto simp: length_Suc_conv numeral_3_eq_3)
  from c have "c = 0 \<or> c = 1 \<or> c = 2" by arith
  then show ?thesis by (auto simp: p set_channels_def)
qed

text \<open>A rounded value between 0 and 255 is stored as it is.\<close>

lemma byte_of_round:
  assumes "0 \<le> v" and "v \<le> 255"
  shows "uint (word_of_int (round (v::real)) :: 8 word) = round v"
proof -
  have "round (0::real) \<le> round v" using assms(1) by (rule round_mono)
  then have lo: "0 \<le> round v" by simp
  have "round v \<le> round (255::real)" using assms(2) by (rule round_mono)
  then have hi: "round v < 256" by simp
  show ?thesis using lo hi by (simp add: uint_word_of_int take_bit_int_eq_self)
qed

section \<open>The crop stage\<close>

text \<open>
  Claim C8. When the crop window that \<open>cropPanorama\<close> derives from the panorama, the
  height of the fixed image and the four corners has a width or a height that is not
  positive, the function returns the panorama it was given, unchanged, and raises no
  error.
\<close>

theorem crop_empty_window_returns_input:
  assumes "length corners = 4"
    and "win = crop_window (int (cols pano)) (int (rows pano)) (int h_dst) corners"
    and "x_end win - x_start win \<le> 0 \<or> y_end win - y_start win \<le> 0"
  shows "cropPanorama pano h_dst corners = Inr pano"
  using assms by (auto simp: cropPanorama_def corners_read_def Let_def)

theorem crop_empty_window_returns_input_witness:
  "length ex_far_left = 4
   \<and> x_end (crop_window 6 3 3 ex_far_left) - x_start (crop_window 6 3 3 ex_far_left) \<le> 0
   \<and> cropPanorama ex_pano 3 ex_far_left = Inr ex_pano"
proof -
  have l: "length ex_far_left = 4" by (simp add: ex_far_left_def)
  have w: "crop_window 6 3 3 ex_far_left =
      crop_window (int (cols ex_pano)) (int (rows ex_pano)) (int 3) ex_far_left"
    by (simp add: ex_pano_def)
  have n: "x_end (crop_window 6 3 3 ex_far_left) - x_start (crop_window 6 3 3 ex_far_left) \<le> 0
      \<or> y_end (crop_window 6 3 3 ex_far_left) - y_start (crop_window 6 3 3 ex_far_left) \<le> 0"
    by (simp add: ex_far_left_window)
  show ?thesis
    using l n crop_empty_window_returns_input [OF l w n] by (simp add: ex_far_left_window)
qed

text \<open>
  Claim C7, as stated: cropping the cropped panorama again (same height, same corners)
  changes nothing. It fails: the window is computed from the corners in the frame of the
  uncropped canvas, so on \<open>ex_left\<close> the first crop cuts the two left columns of the 6
  columns and the second cuts two more of the remaining 4.
\<close>

theorem crop_twice_differs:
  "cropPanorama ex_pano 3 ex_left =
     Inr \<lparr>rows = 3, cols = 4, data = [[12, 13, 14, 15], [22, 23, 24, 25], [32, 33, 34, 35]]\<rparr>
   \<and> crop_twice ex_pano 3 ex_left =
     Inr \<lparr>rows = 3, cols = 2, data = [[14, 15], [24, 25], [34, 35]]\<rparr>
   \<and> crop_twice ex_pano 3 ex_left \<noteq> cropPanorama ex_pano 3 ex_left"
proof -
  have a: "cropPanorama ex_pano 3 ex_left =
     Inr \<lparr>rows = 3, cols = 4, data = [[12, 13, 14, 15], [22, 23, 24, 25], [32, 33, 34, 35]]\<rparr>"
    by (simp add: cropPanorama_def corners_read_def ex_pano_def ex_left_window roi_def)
       (simp add: ex_left_def)
  have w4: "crop_window 4 3 3 ex_left = \<lparr>x_start = 2, x_end = 4, y_start = 0, y_end = 3\<rparr>"
    by (simp add: ex_left_def crop_window_def crop_x_side_def Math_min_def)
  have b: "cropPanorama
       \<lparr>rows = 3, cols = 4, data = [[12, 13, 14, 15], [22, 23, 24, 25], [32, 33, 34, 35::nat]]\<rparr>
       3 ex_left =
     Inr \<lparr>rows = 3, cols = 2, data = [[14, 15], [24, 25], [34, 35]]\<rparr>"
    by (simp add: cropPanorama_def corners_read_def w4 roi_def) (simp add: ex_left_def)
  show ?thesis by (simp add: crop_twice_def a b)
qed

text \<open>
  Claim C7, amended. Cropping twice gives the same as cropping once when the crop window
  starts at the origin of the panorama (left bound 0 and top bound 0), and when the
  window is empty (then the first crop already returns its input).
\<close>

theorem crop_idempotent_at_origin:
  assumes len: "length corners = 4"
    and win: "win = crop_window (int (cols pano)) (int (rows pano)) (int h_dst) corners"
    and org: "(x_start win = 0 \<and> y_start win = 0)
              \<or> x_end win - x_start win \<le> 0 \<or> y_end win - y_start win \<le> 0"
  shows "crop_twice pano h_dst corners = cropPanorama pano h_dst corners"
proof (cases "x_end win - x_start win \<le> 0 \<or> y_end win - y_start win \<le> 0")
  case True
  then have "cropPanorama pano h_dst corners = Inr pano"
    using len win by (auto simp: cropPanorama_def corners_read_def Let_def)
  then show ?thesis by (simp add: crop_twice_def)
next
  case False
  with org have o: "x_start win = 0" "y_start win = 0" and p: "0 < x_end win" "0 < y_end win"
    by auto
  have first: "cropPanorama pano h_dst corners =
      Inr (roi pano 0 0 (nat (x_end win)) (nat (y_end win)))"
    using len o p win by (auto simp: cropPanorama_def corners_read_def Let_def)
  show ?thesis
    unfolding crop_twice_def first
    using crop_again_at_origin[OF len win o p] by simp
qed

theorem crop_idempotent_at_origin_witness:
  "length ex_right = 4
   \<and> x_start (crop_window 6 3 3 ex_right) = 0 \<and> y_start (crop_window 6 3 3 ex_right) = 0
   \<and> cropPanorama ex_pano 3 ex_right =
        Inr \<lparr>rows = 3, cols = 5,
             data = [[10, 11, 12, 13, 14], [20, 21, 22, 23, 24], [30, 31, 32, 33, 34]]\<rparr>
   \<and> crop_twice ex_pano 3 ex_right = cropPanorama ex_pano 3 ex_right"
proof -
  have l: "length ex_right = 4" by (simp add: ex_right_def)
  have w: "crop_window 6 3 3 ex_right =
      crop_window (int (cols ex_pano)) (int (rows ex_pano)) (int 3) ex_right"
    by (simp add: ex_pano_def)
  have o: "(x_start (crop_window 6 3 3 ex_right) = 0 \<and> y_start (crop_window 6 3 3 ex_right) = 0)
     \<or> x_end (crop_window 6 3 3 ex_right) - x_start (crop_window 6 3 3 ex_right) \<le> 0
     \<or> y_end (crop_window 6 3 3 ex_right) - y_start (crop_window 6 3 3 ex_right) \<le> 0"
    by (simp add: ex_right_window)
  have a: "cropPanorama ex_pano 3 ex_right =
        Inr \<lparr>rows = 3, cols = 5,
             data = [[10, 11, 12, 13, 14], [20, 21, 22, 23, 24], [30, 31, 32, 33, 34]]\<rparr>"
    by (simp add: cropPanorama_def corners_read_def ex_pano_def ex_right_window roi_def)
       (simp add: ex_right_def)
  show ?thesis
    using l a crop_idempotent_at_origin [OF l w o] by (simp add: ex_right_window)
qed




text \<open>
  Claim C10. In \<open>cropPanorama\<close>, when the floor of the smallest x of the corners is
  negative, the left bound of the crop window is the larger of the bound the side rule
  gives and \<open>- floor minX\<close>, on a left and on a right extension alike: it is at least
  \<open>floor (- minX)\<close> and at least the bound of the side rule.
\<close>

theorem crop_left_bound_raised:
  assumes "length corners = 4" and "\<lfloor>Math_min (map fst corners)\<rfloor> < 0"
  shows "x_start (crop_window pano_cols pano_rows h_dst corners) =
           max (fst (crop_x_side pano_cols corners)) (- \<lfloor>Math_min (map fst corners)\<rfloor>)
         \<and> \<lfloor>- Math_min (map fst corners)\<rfloor>
             \<le> x_start (crop_window pano_cols pano_rows h_dst corners)
         \<and> fst (crop_x_side pano_cols corners)
             \<le> x_start (crop_window pano_cols pano_rows h_dst corners)"
proof -
  let ?m = "Math_min (map fst corners)"
  have fl: "\<lfloor>- ?m\<rfloor> \<le> - \<lfloor>?m\<rfloor>" by linarith
  have side0: "0 \<le> fst (crop_x_side pano_cols corners)"
    by (simp add: crop_x_side_def Let_def)
  have eq: "x_start (crop_window pano_cols pano_rows h_dst corners) =
           max (fst (crop_x_side pano_cols corners)) (- \<lfloor>?m\<rfloor>)"
    using assms(2) side0
    by (cases "crop_x_side pano_cols corners") (simp add: crop_window_def Let_def)
  show ?thesis using eq fl by simp
qed

theorem crop_left_bound_raised_witness:
  "length ex_skew = 4 \<and> length ex_left = 4
   \<and> \<lfloor>Math_min (map fst ex_skew)\<rfloor> < 0 \<and> \<not> fst (ex_skew ! top_left) < 0
   \<and> fst (crop_x_side 6 ex_skew) = 0 \<and> - \<lfloor>Math_min (map fst ex_skew)\<rfloor> = 2
   \<and> \<lfloor>- Math_min (map fst ex_skew)\<rfloor> = 1
   \<and> x_start (crop_window 6 3 3 ex_skew) = 2
   \<and> \<lfloor>Math_min (map fst ex_left)\<rfloor> < 0 \<and> fst (ex_left ! top_left) < 0
   \<and> x_start (crop_window 6 3 3 ex_left) = 2"
proof -
  have l: "length ex_skew = 4" and l': "length ex_left = 4"
    by (simp_all add: ex_skew_def ex_left_def)
  have m: "\<lfloor>Math_min (map fst ex_skew)\<rfloor> < 0" by (simp add: ex_skew_def Math_min_def)
  have m': "\<lfloor>Math_min (map fst ex_left)\<rfloor> < 0" by (simp add: ex_left_def Math_min_def)
  have v: "\<not> fst (ex_skew ! top_left) < 0" "fst (crop_x_side 6 ex_skew) = 0"
    "- \<lfloor>Math_min (map fst ex_skew)\<rfloor> = 2" "\<lfloor>- Math_min (map fst ex_skew)\<rfloor> = 1"
    "fst (ex_left ! top_left) < 0"
    by (simp_all add: ex_skew_def ex_left_def Math_min_def crop_x_side_def)
  show ?thesis
    using l l' m m' v crop_left_bound_raised [OF l m, of 6 3 3]
      crop_left_bound_raised [OF l' m', of 6 3 3]
    by (simp add: ex_left_window)
qed

section \<open>Feature matching\<close>

text \<open>
  Claim C6. The good matches are the nearest candidates of exactly those query
  descriptors that have two candidates with
  \<open>distance(best) < 0.75 * distance(second-best)\<close>, in the order of the queries; and once
  both images have their four keypoints, the stitch fails with the error "Not enough
  good matches" exactly when fewer than 4 matches pass this test, and goes on with the
  good matches otherwise.
\<close>

theorem ratio_test_and_match_count:
  "good_matches matches =
     map (\<lambda>p. p ! 0)
       (filter (\<lambda>p. 2 \<le> length p \<and> distance (p ! 0) < 0.75 * distance (p ! 1)) matches)
   \<and> (4 \<le> kp_dst_size \<and> 4 \<le> kp_src_size \<longrightarrow>
        (stitchTwoImages_match kp_dst_size kp_src_size matches = Inl NotEnoughGoodMatches
           \<longleftrightarrow> length (good_matches matches) < 4)
      \<and> (stitchTwoImages_match kp_dst_size kp_src_size matches = Inr (good_matches matches)
           \<longleftrightarrow> 4 \<le> length (good_matches matches)))"
proof -
  have "good_matches matches =
     map (\<lambda>p. p ! 0)
       (filter (\<lambda>p. 2 \<le> length p \<and> distance (p ! 0) < 0.75 * distance (p ! 1)) matches)"
    by (induction matches) (simp_all add: Let_def)
  then show ?thesis
    by (auto simp: stitchTwoImages_match_def Let_def)
qed

theorem ratio_test_and_match_count_witness:
  "(4::nat) \<le> 4 \<and> stitchTwoImages_match 4 4 (tl ex_matches) = Inl NotEnoughGoodMatches
   \<and> length (good_matches (tl ex_matches)) = 3
   \<and> stitchTwoImages_match 4 4 ex_matches = Inr (good_matches ex_matches)
   \<and> length (good_matches ex_matches) = 4"
proof -
  have a: "stitchTwoImages_match 4 4 (tl ex_matches) = Inl NotEnoughGoodMatches"
    using ratio_test_and_match_count [THEN conjunct2, of 4 4 "tl ex_matches"]
    by (simp add: ex_good3)
  have b: "stitchTwoImages_match 4 4 ex_matches = Inr (good_matches ex_matches)"
    using ratio_test_and_match_count [THEN conjunct2, of 4 4 ex_matches]
    by (simp add: ex_good)
  show ?thesis using a b by (simp add: ex_good ex_good3)
qed

section \<open>Homography and canvas\<close>






section \<open>The blend\<close>

subsection \<open>No sum of two single precision numbers is the double 0.01\<close>

text \<open>
  The double \<open>0.01\<close> is the odd number 5764607523034235 times \<open>2^-59\<close>. Scaled by
  \<open>2^149\<close>, two single precision numbers are \<open>ma * 2^ja\<close> and \<open>mb * 2^jb\<close> with mantissas
  below \<open>2^24\<close>, and a sum that rounds to the double \<open>0.01\<close> is within \<open>2^89\<close> of
  \<open>5764607523034235 * 2^90\<close>. With \<open>X = 2^89\<close>: if both numbers are multiples of \<open>4 * X\<close>,
  so is their sum, and none is that near; otherwise the smaller one is below \<open>2^25 * X\<close>,
  and the larger one is either a multiple of \<open>2^30 * X\<close>, none of which is near enough,
  or too small.
\<close>

lemma scale_abs_le:
  fixes X u v :: int
  assumes "0 < X" and "\<bar>X * u\<bar> \<le> X * v"
  shows "\<bar>u\<bar> \<le> v"
proof -
  have "\<bar>X * u\<bar> = X * \<bar>u\<bar>" using assms(1) by (simp add: abs_mult)
  then have "X * \<bar>u\<bar> \<le> X * v" using assms(2) by simp
  then show ?thesis using assms(1) by (simp only: mult_le_cancel_left_pos)
qed

lemma no_half_way_multiple:
  fixes X n :: int
  assumes "0 < X" and "\<bar>4 * X * n - 5764607523034235 * (2 * X)\<bar> \<le> X"
  shows False
proof -
  have "\<bar>X * (4 * n - 2 * 5764607523034235)\<bar> \<le> X * 1"
    using assms(2) by (simp add: algebra_simps)
  then have "\<bar>4 * n - 2 * 5764607523034235\<bar> \<le> 1"
    using assms(1) by (rule scale_abs_le [rotated])
  moreover have "even (4 * n - 2 * 5764607523034235)" by simp
  ultimately have "4 * n - 2 * 5764607523034235 = 0" by presburger
  then have "2 * n = (5764607523034235 :: int)" by linarith
  then have "even (5764607523034235 :: int)" by (metis dvd_triv_left)
  then show False by simp
qed

lemma no_near_multiple:
  fixes X t b :: int
  assumes "0 < X" and "\<bar>b\<bar> \<le> (2 ^ 24 - 1) * (2 * X)"
    and "\<bar>2 ^ 30 * X * t + b - 5764607523034235 * (2 * X)\<bar> \<le> X"
  shows False
proof -
  have "\<bar>2 ^ 30 * X * t - 5764607523034235 * (2 * X)\<bar> \<le> X + (2 ^ 24 - 1) * (2 * X)"
    using assms(2,3) by linarith
  then have "\<bar>X * (2 ^ 30 * t - 2 * 5764607523034235)\<bar> \<le> X * (2 ^ 25 - 1)"
    by (simp add: algebra_simps)
  then have "\<bar>2 ^ 30 * t - 2 * 5764607523034235\<bar> \<le> (2 ^ 25 - 1 :: int)"
    using assms(1) by (rule scale_abs_le [rotated])
  then have b: "2 ^ 30 * t \<le> 2 * 5764607523034235 + (2 ^ 25 - 1 :: int)"
    and c: "2 * 5764607523034235 - (2 ^ 25 - 1 :: int) \<le> 2 ^ 30 * t"
    by linarith+
  have "t \<le> 10737418 \<or> 10737419 \<le> t" by linarith
  then show False
  proof
    assume "t \<le> 10737418"
    then have "2 ^ 30 * t \<le> 2 ^ 30 * (10737418 :: int)" by simp
    with c show False by simp
  next
    assume "10737419 \<le> t"
    then have "2 ^ 30 * (10737419 :: int) \<le> 2 ^ 30 * t" by simp
    with b show False by simp
  qed
qed

lemma too_small_to_reach:
  fixes X a b :: int
  assumes "0 < X" and "\<bar>b\<bar> \<le> (2 ^ 24 - 1) * (2 * X)" and "\<bar>a\<bar> \<le> (2 ^ 24 - 1) * (2 ^ 29 * X)"
    and "\<bar>a + b - 5764607523034235 * (2 * X)\<bar> \<le> X"
  shows False
proof -
  have "5764607523034235 * (2 * X) - X \<le> (2 ^ 24 - 1) * (2 ^ 29 * X) + (2 ^ 24 - 1) * (2 * X)"
    using assms(2,3,4) by linarith
  then have "X * (2 * 5764607523034235 - 1) \<le> X * ((2 ^ 24 - 1) * 2 ^ 29 + (2 ^ 24 - 1) * 2)"
    by (simp add: algebra_simps)
  then have "(2 * 5764607523034235 - 1 :: int) \<le> (2 ^ 24 - 1) * 2 ^ 29 + (2 ^ 24 - 1) * 2"
    using assms(1) by (simp only: mult_le_cancel_left_pos)
  then show False by simp
qed

lemma no_float32_pair:
  fixes ma mb :: int and ja jb :: nat
  assumes ma: "\<bar>ma\<bar> < 2 ^ 24" and mb: "\<bar>mb\<bar> < 2 ^ 24" and le: "jb \<le> ja"
    and near: "\<bar>ma * 2 ^ ja + mb * 2 ^ jb - 5764607523034235 * 2 ^ 90\<bar> \<le> 2 ^ 89"
  shows False
proof -
  define X :: int where "X = 2 ^ 89"
  have X: "0 < X" by (simp add: X_def)
  have p90: "(2::int) ^ 90 = 2 * X" and p91: "(2::int) ^ 91 = 4 * X"
    and p118: "(2::int) ^ 118 = 2 ^ 29 * X" and p119: "(2::int) ^ 119 = 2 ^ 30 * X"
    by (simp_all add: X_def)
  have near': "\<bar>ma * 2 ^ ja + mb * 2 ^ jb - 5764607523034235 * (2 * X)\<bar> \<le> X"
    using near by (simp only: p90 X_def)
  show False
  proof (cases "91 \<le> jb")
    case True
    then obtain k where jb: "jb = 91 + k" using le_Suc_ex by blast
    from True le obtain k' where ja: "ja = 91 + k'" using le_Suc_ex le_trans by blast
    have "ma * 2 ^ ja + mb * 2 ^ jb = 4 * X * (ma * 2 ^ k' + mb * 2 ^ k)"
      unfolding ja jb power_add p91 by (simp add: algebra_simps)
    with near' have "\<bar>4 * X * (ma * 2 ^ k' + mb * 2 ^ k) - 5764607523034235 * (2 * X)\<bar> \<le> X"
      by (simp only:)
    then show False by (rule no_half_way_multiple [OF X])
  next
    case False
    then have "jb \<le> 90" by simp
    then have "(2::int) ^ jb \<le> 2 ^ 90" by (intro power_increasing) simp_all
    moreover have "\<bar>mb\<bar> \<le> 2 ^ 24 - 1" using mb by simp
    ultimately have "\<bar>mb\<bar> * 2 ^ jb \<le> (2 ^ 24 - 1) * 2 ^ 90"
      by (intro mult_mono) simp_all
    then have b: "\<bar>mb * 2 ^ jb\<bar> \<le> (2 ^ 24 - 1) * (2 * X)"
      by (simp only: abs_mult p90) simp
    show False
    proof (cases "119 \<le> ja")
      case True
      then obtain k where ja: "ja = 119 + k" using le_Suc_ex by blast
      have "ma * 2 ^ ja = 2 ^ 30 * X * (ma * 2 ^ k)"
        unfolding ja power_add p119 by (simp add: algebra_simps)
      with near' have "\<bar>2 ^ 30 * X * (ma * 2 ^ k) + mb * 2 ^ jb
          - 5764607523034235 * (2 * X)\<bar> \<le> X"
        by (simp only:)
      then show False by (rule no_near_multiple [OF X b])
    next
      case False
      then have "ja \<le> 118" by simp
      then have "(2::int) ^ ja \<le> 2 ^ 118" by (intro power_increasing) simp_all
      moreover have "\<bar>ma\<bar> \<le> 2 ^ 24 - 1" using ma by simp
      ultimately have "\<bar>ma\<bar> * 2 ^ ja \<le> (2 ^ 24 - 1) * 2 ^ 118"
        by (intro mult_mono) simp_all
      then have a: "\<bar>ma * 2 ^ ja\<bar> \<le> (2 ^ 24 - 1) * (2 ^ 29 * X)"
        by (simp only: abs_mult p118) simp
      show False by (rule too_small_to_reach [OF X b a near'])
    qed
  qed
qed

lemma float32_sum_apart:
  assumes a: "is_float32 a" and b: "is_float32 b"
    and near: "\<bar>a + b - js_0_01\<bar> \<le> 1 / 2 ^ 60"
  shows False
proof -
  from a obtain ma :: int and ja :: nat
    where ma: "\<bar>ma\<bar> < 2 ^ 24" and av: "a = of_int ma * 2 ^ ja / 2 ^ 149"
    unfolding is_float32_def by blast
  from b obtain mb :: int and jb :: nat
    where mb: "\<bar>mb\<bar> < 2 ^ 24" and bv: "b = of_int mb * 2 ^ jb / 2 ^ 149"
    unfolding is_float32_def by blast
  let ?z = "ma * 2 ^ ja + mb * 2 ^ jb - 5764607523034235 * 2 ^ 90"
  have split: "(2::real) ^ 149 = 2 ^ 59 * 2 ^ 90" by (simp only: power_add [symmetric]) simp
  have e1: "(a + b - js_0_01) * 2 ^ 149 = of_int ?z"
    unfolding av bv js_0_01_def
    by (simp add: algebra_simps add_divide_distrib diff_divide_distrib split)
  have e2: "\<bar>a + b - js_0_01\<bar> * 2 ^ 149 \<le> 1 / 2 ^ 60 * 2 ^ 149"
    using near by (intro mult_right_mono) simp_all
  have e3: "(1::real) / 2 ^ 60 * 2 ^ 149 = 2 ^ 89"
  proof -
    have "(2::real) ^ 149 = 2 ^ 60 * 2 ^ 89" by (simp only: power_add [symmetric]) simp
    then show ?thesis by simp
  qed
  have e4: "\<bar>(a + b - js_0_01) * 2 ^ 149\<bar> = \<bar>a + b - js_0_01\<bar> * 2 ^ 149"
  proof -
    have "\<bar>(2::real) ^ 149\<bar> = 2 ^ 149" by (rule abs_of_nonneg) (rule zero_le_power, simp)
    then show ?thesis by (simp only: abs_mult)
  qed
  have "\<bar>of_int ?z :: real\<bar> = \<bar>(a + b - js_0_01) * 2 ^ 149\<bar>" by (simp only: e1)
  also have "\<dots> = \<bar>a + b - js_0_01\<bar> * 2 ^ 149" by (rule e4)
  also have "\<dots> \<le> 1 / 2 ^ 60 * 2 ^ 149" by (rule e2)
  also have "\<dots> = 2 ^ 89" by (rule e3)
  finally have "\<bar>of_int ?z :: real\<bar> \<le> 2 ^ 89" .
  then have "of_int \<bar>?z\<bar> \<le> (of_int (2 ^ 89) :: real)" by (simp only: of_int_abs) simp
  then have z: "\<bar>?z\<bar> \<le> 2 ^ 89" by (simp only: of_int_le_iff)
  show False
  proof (cases "jb \<le> ja")
    case True
    show False by (rule no_float32_pair [OF ma mb True z])
  next
    case False
    then have le: "ja \<le> jb" by simp
    have "mb * 2 ^ jb + ma * 2 ^ ja - 5764607523034235 * 2 ^ 90 = ?z" by simp
    with z have "\<bar>mb * 2 ^ jb + ma * 2 ^ ja - 5764607523034235 * 2 ^ 90\<bar> \<le> 2 ^ 89"
      by (simp only:)
    then show False by (rule no_float32_pair [OF mb ma le])
  qed
qed

lemma js_0_01_binade: "1 / 2 ^ 7 \<le> js_0_01" "js_0_01 < 1 / 2 ^ 6"
  by (simp_all add: js_0_01_def)

lemma total_not_threshold:
  assumes "is_float32 d_dst" and "is_float32 d_src" and "rounds_to_nearest (fadd fp)"
  shows "fadd fp d_dst d_src \<noteq> js_0_01"
proof
  assume e: "fadd fp d_dst d_src = js_0_01"
  then have "\<bar>fadd fp d_dst d_src - (d_dst + d_src)\<bar> \<le> 1 / 2 ^ 60"
    using assms(3) js_0_01_binade unfolding rounds_to_nearest_def by metis
  then have "\<bar>d_dst + d_src - js_0_01\<bar> \<le> 1 / 2 ^ 60" unfolding e by (simp add: abs_minus_commute)
  then show False by (rule float32_sum_apart [OF assms(1,2)])
qed

lemma is_float32_examples: "is_float32 3" "is_float32 1" "is_float32 (1 / 256)" "is_float32 0"
proof -
  have "\<bar>3::int\<bar> < 2 ^ 24 \<and> (149::nat) \<le> 253 \<and> (3::real) = of_int 3 * 2 ^ 149 / 2 ^ 149" by simp
  then show "is_float32 3" unfolding is_float32_def by blast
  have "\<bar>1::int\<bar> < 2 ^ 24 \<and> (149::nat) \<le> 253 \<and> (1::real) = of_int 1 * 2 ^ 149 / 2 ^ 149" by simp
  then show "is_float32 1" unfolding is_float32_def by blast
  have "(2::real) ^ 149 = 2 ^ 141 * 2 ^ 8" by (simp only: power_add [symmetric]) simp
  then have "\<bar>1::int\<bar> < 2 ^ 24 \<and> (141::nat) \<le> 253 \<and> (1 / 256 ::real) = of_int 1 * 2 ^ 141 / 2 ^ 149"
    by simp
  then show "is_float32 (1 / 256)" unfolding is_float32_def by blast
  have "\<bar>0::int\<bar> < 2 ^ 24 \<and> (0::nat) \<le> 253 \<and> (0::real) = of_int 0 * 2 ^ 0 / 2 ^ 149" by simp
  then show "is_float32 0" unfolding is_float32_def by blast
qed

lemma exact_rounds: "rounds_to_nearest (fadd exact)"
  by (simp add: rounds_to_nearest_def exact_def)

subsection \<open>The overlap branch\<close>

text \<open>
  Claim C5. For a pixel in the eroded overlap, each of the three colour channels of the
  output is the rounded \<open>fixed * wFixed + moving * wMoving\<close> with
  \<open>wFixed = dFixed / (dFixed + dMoving)\<close> and \<open>wMoving = dMoving / (dFixed + dMoving)\<close>,
  except that when \<open>dFixed + dMoving < 0.01\<close> it is the rounded half-and-half average of
  the two pixels. The two distances are single precision numbers (they are read with
  \<open>floatAt\<close>), the arithmetic is the machine's and \<open>0.01\<close> is the double of that
  literal; the code tests \<open>total > 0.01\<close>, which is the same test because the sum is
  never that double itself.
\<close>

theorem blend_overlap_pixel:
  assumes c: "c < 3"
    and len: "length dst_pix = 3" "length src_pix = 4" "length pano_pix = 3"
    and f32: "is_float32 d_dst" "is_float32 d_src"
    and rn: "rounds_to_nearest (fadd fp)"
  shows
    "(\<not> fadd fp d_dst d_src < js_0_01 \<longrightarrow>
        blend_pixel fp True has_dst has_src d_dst d_src dst_pix src_pix pano_pix ! c =
          word_of_int
            (round (fadd fp (fmul fp (chan dst_pix c) (fdiv fp d_dst (fadd fp d_dst d_src)))
                            (fmul fp (chan src_pix c) (fdiv fp d_src (fadd fp d_dst d_src))))))
     \<and> (fadd fp d_dst d_src < js_0_01 \<longrightarrow>
        uint (blend_pixel fp True has_dst has_src d_dst d_src dst_pix src_pix pano_pix ! c) =
          round ((chan dst_pix c + chan src_pix c) / 2))"
proof (intro conjI impI)
  assume "\<not> fadd fp d_dst d_src < js_0_01"
  moreover have "fadd fp d_dst d_src \<noteq> js_0_01" by (rule total_not_threshold [OF f32 rn])
  ultimately have "fadd fp d_dst d_src > js_0_01" by simp
  then show "blend_pixel fp True has_dst has_src d_dst d_src dst_pix src_pix pano_pix ! c =
          word_of_int
            (round (fadd fp (fmul fp (chan dst_pix c) (fdiv fp d_dst (fadd fp d_dst d_src)))
                            (fmul fp (chan src_pix c) (fdiv fp d_src (fadd fp d_dst d_src)))))"
    using c len(3) by (simp add: blend_pixel_def Let_def set_channels_nth Math_round_eq)
next
  assume h: "fadd fp d_dst d_src < js_0_01"
  let ?v = "(chan dst_pix c + chan src_pix c) / 2"
  have r: "0 \<le> ?v" "?v \<le> 255"
    using chan_range [of dst_pix c] chan_range [of src_pix c] by simp_all
  have "blend_pixel fp True has_dst has_src d_dst d_src dst_pix src_pix pano_pix ! c =
          word_of_int (round ?v)"
    using h c len(3) by (simp add: blend_pixel_def Let_def set_channels_nth Math_round_eq)
  then show "uint (blend_pixel fp True has_dst has_src d_dst d_src dst_pix src_pix pano_pix ! c) =
          round ?v"
    using byte_of_round [OF r] by simp
qed

theorem blend_overlap_pixel_witness:
  "(0::nat) < 3 \<and> length ex_dst_pix = 3 \<and> length ex_src_pix = 4 \<and> length ex_pano_pix = 3
   \<and> is_float32 3 \<and> is_float32 1 \<and> is_float32 (1 / 256) \<and> is_float32 0
   \<and> rounds_to_nearest (fadd exact)
   \<and> \<not> fadd exact 3 1 < js_0_01
   \<and> blend_pixel exact True True True 3 1 ex_dst_pix ex_src_pix ex_pano_pix ! 0 = 175
   \<and> fadd exact (1 / 256) 0 < js_0_01
   \<and> uint (blend_pixel exact True True True (1 / 256) 0 ex_dst_pix ex_src_pix ex_pano_pix ! 0)
       = 150"
proof -
  have c: "(0::nat) < 3" by simp
  have l: "length ex_dst_pix = 3" "length ex_src_pix = 4" "length ex_pano_pix = 3"
    by (simp_all add: ex_dst_pix_def ex_src_pix_def ex_pano_pix_def)
  have t: "\<not> fadd exact 3 1 < js_0_01" "fadd exact (1 / 256) 0 < js_0_01"
    by (simp_all add: exact_def js_0_01_def)
  have a: "blend_pixel exact True True True 3 1 ex_dst_pix ex_src_pix ex_pano_pix ! 0 = 175"
    using blend_overlap_pixel [OF c l is_float32_examples(1,2) exact_rounds, of True True] t(1)
    by (simp add: ex_chan round_def exact_def)
  have b: "uint (blend_pixel exact True True True (1 / 256) 0 ex_dst_pix ex_src_pix ex_pano_pix ! 0)
      = 150"
    using blend_overlap_pixel [OF c l is_float32_examples(3,4) exact_rounds, of True True] t(2)
    by (simp add: ex_chan round_def)
  show ?thesis using l a b t is_float32_examples exact_rounds by simp
qed

section \<open>The driver\<close>

text \<open>
  Claim C9. With fewer than 2 uploaded images \<open>stitchWithOpenCV\<close> only tells the caller
  "Please upload at least 2 images": nothing is loaded or stitched, and the panorama, the
  processing flag, the progress and the status log stay as they were.
\<close>

theorem too_few_images:
  assumes "length images < 2"
  shows "stitchWithOpenCV loadImage stitchTwoImages toBlob images s =
           s\<lparr>alerts := alerts s @ [''Please upload at least 2 images'']\<rparr>
         \<and> panorama (stitchWithOpenCV loadImage stitchTwoImages toBlob images s) = panorama s
         \<and> processing (stitchWithOpenCV loadImage stitchTwoImages toBlob images s) = processing s
         \<and> progress (stitchWithOpenCV loadImage stitchTwoImages toBlob images s) = progress s
         \<and> statusLog (stitchWithOpenCV loadImage stitchTwoImages toBlob images s) = statusLog s"
  using assms by (simp add: stitchWithOpenCV_def)

theorem too_few_images_witness:
  "length [ex_img] < 2
   \<and> stitchWithOpenCV Inr (\<lambda>a b i. ([], Inr a)) (\<lambda>m. Some ''blob:new'') [ex_img] ex_state =
       ex_state\<lparr>alerts := [''Please upload at least 2 images'']\<rparr>
   \<and> length ([] :: nat mat list) < 2
   \<and> panorama (stitchWithOpenCV Inr (\<lambda>a b i. ([], Inr a)) (\<lambda>m. Some ''blob:new'')
         ([] :: nat mat list) ex_state)
       = Some ''blob:previous''"
proof -
  have a: "length [ex_img] < 2" "length ([] :: nat mat list) < 2" by simp_all
  have p: "panorama ex_state = Some ''blob:previous''" and al: "alerts ex_state = []"
    by (simp_all add: ex_state_def)
  have one: "stitchWithOpenCV Inr (\<lambda>a b i. ([], Inr a)) (\<lambda>m. Some ''blob:new'') [ex_img] ex_state
      = ex_state\<lparr>alerts := [''Please upload at least 2 images'']\<rparr>"
    using too_few_images [OF a(1), THEN conjunct1,
        of Inr "\<lambda>a b i. ([], Inr a)" "\<lambda>m. Some ''blob:new''" ex_state]
    by (simp only: al append_Nil)
  have none: "panorama (stitchWithOpenCV Inr (\<lambda>a b i. ([], Inr a)) (\<lambda>m. Some ''blob:new'')
        ([] :: nat mat list) ex_state) = Some ''blob:previous''"
    using too_few_images [OF a(2), THEN conjunct2, THEN conjunct1,
        of Inr "\<lambda>a b i. ([], Inr a)" "\<lambda>m. Some ''blob:new''" ex_state]
    by (simp only: p)
  show ?thesis using a one none by (intro conjI)
qed

end
